theory Spec2Isabelle
  imports Main "HOL-Library.AList"
begin

section \<open>Paths\<close>

text \<open>
  A path of the model is a resolved absolute path, given by its components from the root
  (the root is the empty list). On such a path \<^verbatim>\<open>Path.resolve()\<close> changes nothing, so
  \<open>resolve\<close> is the identity; it is kept so that each call of the source shows in the model.
  \<open>path_name\<close>, \<open>path_stem\<close> and \<open>path_suffix\<close> are pathlib's \<^verbatim>\<open>name\<close>, \<^verbatim>\<open>stem\<close> and
  \<^verbatim>\<open>suffix\<close> (the suffix starts at the last dot of the name, unless that dot is the first or
  the last character), \<open>joinpath\<close> is \<^verbatim>\<open>/\<close> with a single name on the right, and
  \<open>str_path\<close> is \<^verbatim>\<open>str\<close>.
\<close>

type_synonym path = "string list"

definition resolve :: "path \<Rightarrow> path" where
  "resolve p = p"

definition path_name :: "path \<Rightarrow> string" where
  "path_name p = (if p = [] then [] else last p)"

definition rfind_dot :: "string \<Rightarrow> nat option" where
  "rfind_dot n =
     (let k = length (takeWhile (\<lambda>c. c \<noteq> CHR ''.'') (rev n))
      in if k = length n then None else Some (length n - 1 - k))"

definition path_suffix :: "path \<Rightarrow> string" where
  "path_suffix p =
     (let n = path_name p in
      case rfind_dot n of
        None \<Rightarrow> []
      | Some i \<Rightarrow> if 0 < i \<and> i < length n - 1 then drop i n else [])"

definition path_stem :: "path \<Rightarrow> string" where
  "path_stem p =
     (let n = path_name p in
      case rfind_dot n of
        None \<Rightarrow> n
      | Some i \<Rightarrow> if 0 < i \<and> i < length n - 1 then take i n else n)"

definition joinpath :: "path \<Rightarrow> string \<Rightarrow> path" where
  "joinpath d n = d @ [n]"

definition parent :: "path \<Rightarrow> path" where
  "parent p = butlast p"

definition str_path :: "path \<Rightarrow> string" where
  "str_path p = (if p = [] then ''/'' else concat (map (\<lambda>c. CHR ''/'' # c) p))"

definition prefixes_of :: "path \<Rightarrow> path list" where
  "prefixes_of p = map (\<lambda>n. take n p) [1..<Suc (length p)]"

section \<open>The operating system\<close>

text \<open>
  Exceptions are values. \<open>TimeoutExpired\<close> is \<^verbatim>\<open>subprocess.TimeoutExpired\<close>,
  \<open>UnicodeDecodeError\<close> is raised when captured output cannot be decoded as text;
  \<open>FileNotFoundError\<close> is kept apart from the other \<^verbatim>\<open>OSError\<close>s because
  \<^verbatim>\<open>move_file\<close> catches it on its own.
\<close>

datatype exn =
    FileNotFoundError string
  | OSError string
  | TimeoutExpired
  | UnicodeDecodeError string
  | RuntimeError string

definition str_exn :: "exn \<Rightarrow> string" where
  "str_exn e =
     (case e of
        FileNotFoundError m \<Rightarrow> m
      | OSError m \<Rightarrow> m
      | TimeoutExpired \<Rightarrow> ''timed out''
      | UnicodeDecodeError m \<Rightarrow> m
      | RuntimeError m \<Rightarrow> m)"

text \<open>
  What a spawned command does: it runs for a time (in milliseconds) and exits with a return
  code, having written bytes to standard output and to standard error, or it cannot be
  started at all.
\<close>

datatype process =
    Completes nat int string string
  | CannotStart exn

datatype out_line =
    LogLine nat string string
  | RawLine string

text \<open>
  The part of the environment the program cannot change: what other actors do to the file
  system while the program waits (\<open>others\<close>, given the time reached), which system calls
  fail, what the signer does for a command line, and the values the search for the
  executable reads. \<open>now_stamp\<close> is \<^verbatim>\<open>strftime("%Y%m%d_%H%M%S")\<close> of a clock value,
  \<open>mkpath\<close> is \<^verbatim>\<open>Path(x).expanduser().resolve()\<close>, \<open>x_ok\<close> holds the paths for which
  \<^verbatim>\<open>os.access(p, os.X_OK)\<close> is true, and \<open>str_interval\<close> prints the polling interval.
  \<open>decode\<close> turns captured bytes into text the way \<^verbatim>\<open>text=True\<close> does (the locale's
  encoding, then newline translation); it is \<open>None\<close> for bytes that are not valid in that
  encoding.
\<close>

record os =
  others :: "nat \<Rightarrow> (path \<times> nat) list \<times> path set \<Rightarrow> (path \<times> nat) list \<times> path set"
  mkdir_error :: "path \<Rightarrow> string option"
  move_error :: "path \<Rightarrow> path \<Rightarrow> exn option"
  open_error :: "path \<Rightarrow> string option"
  dir_size :: "path \<Rightarrow> nat"
  signer :: "string list \<Rightarrow> process"
  decode :: "string \<Rightarrow> string option"
  now_stamp :: "nat \<Rightarrow> string"
  str_interval :: "nat \<Rightarrow> string"
  mkpath :: "string \<Rightarrow> path"
  x_ok :: "path set"
  environ_SIGNTOOLS_PATH :: "string option"
  script_dir :: path
  which_SignTools :: "path option"
  cwd :: path

text \<open>
  The part the program changes or that changes under it: regular files with their sizes (in
  the order a directory scan yields them), directories, the clock in milliseconds, what was
  printed, what was appended to which file, and the calls of \<^verbatim>\<open>subprocess.run\<close> with their
  timeout in seconds. \<open>resolutions\<close> and \<open>scans\<close> count the calls of
  \<^verbatim>\<open>find_sign_tools\<close> and \<^verbatim>\<open>scan_and_process\<close>.
\<close>

record world =
  files :: "(path \<times> nat) list"
  dirs :: "path set"
  clock :: nat
  console :: "out_line list"
  appended :: "(path \<times> out_line) list"
  run_calls :: "(string list \<times> nat) list"
  resolutions :: nat
  scans :: nat

definition file_size :: "world \<Rightarrow> path \<Rightarrow> nat option" where
  "file_size w p = map_of (files w) p"

definition is_file :: "world \<Rightarrow> path \<Rightarrow> bool" where
  "is_file w p = (file_size w p \<noteq> None)"

definition is_dir :: "world \<Rightarrow> path \<Rightarrow> bool" where
  "is_dir w p = (p = [] \<or> p \<in> dirs w)"

definition exists :: "world \<Rightarrow> path \<Rightarrow> bool" where
  "exists w p = (is_file w p \<or> is_dir w p)"

text \<open>\<^verbatim>\<open>Path.stat().st_size\<close>: raises for a path that does not exist.\<close>

definition stat_size :: "os \<Rightarrow> world \<Rightarrow> path \<Rightarrow> exn + nat" where
  "stat_size E w p =
     (case file_size w p of
        Some n \<Rightarrow> Inr n
      | None \<Rightarrow> if is_dir w p then Inr (dir_size E p) else Inl (FileNotFoundError (str_path p)))"

text \<open>
  Waiting (\<^verbatim>\<open>time.sleep\<close>, or the wait for a subprocess) for \<open>d\<close> milliseconds: the clock
  advances and the other actors have done their work.
\<close>

definition wait :: "os \<Rightarrow> nat \<Rightarrow> world \<Rightarrow> world" where
  "wait E d w =
     (let t = clock w + d; r = others E t (files w, dirs w)
      in w\<lparr>files := fst r, dirs := snd r, clock := t\<rparr>)"

text \<open>
  \<^verbatim>\<open>Path.mkdir(parents=True, exist_ok=True)\<close>: nothing to do for a directory that exists;
  an error when the path or one of its ancestors is a regular file, or when a directory that
  has to be created cannot be; otherwise the directory and its missing ancestors exist
  afterwards.
\<close>

fun mkdir_first_error :: "os \<Rightarrow> world \<Rightarrow> path list \<Rightarrow> string option" where
  "mkdir_first_error E w [] = None"
| "mkdir_first_error E w (p # ps) =
     (if is_dir w p then mkdir_first_error E w ps
      else case mkdir_error E p of
             Some m \<Rightarrow> Some m
           | None \<Rightarrow> mkdir_first_error E w ps)"

definition mkdir_parents :: "os \<Rightarrow> path \<Rightarrow> world \<Rightarrow> exn + world" where
  "mkdir_parents E d w =
     (if is_dir w d then Inr w
      else if list_ex (is_file w) (prefixes_of d) then Inl (OSError ''File exists'')
      else case mkdir_first_error E w (prefixes_of d) of
             Some m \<Rightarrow> Inl (OSError m)
           | None \<Rightarrow> Inr (w\<lparr>dirs := dirs w \<union> set (prefixes_of d)\<rparr>))"

text \<open>
  \<^verbatim>\<open>shutil.move(src, dst)\<close>. A destination that is a directory receives the source under
  its own name, and refuses when that name is taken. Otherwise the source is renamed to the
  destination, and a regular file already there is replaced. Moving a directory carries
  along everything below it. A move that raises leaves the file system as it was: the copy
  that a failed rename falls back to is not modelled.
\<close>

definition rebase :: "path \<Rightarrow> path \<Rightarrow> path \<Rightarrow> path" where
  "rebase a b p = (if take (length a) p = a then b @ drop (length a) p else p)"

definition shutil_move :: "os \<Rightarrow> path \<Rightarrow> path \<Rightarrow> world \<Rightarrow> exn + world" where
  "shutil_move E src dst w =
     (case move_error E src dst of
        Some e \<Rightarrow> Inl e
      | None \<Rightarrow>
          if \<not> exists w src then Inl (FileNotFoundError (str_path src))
          else
            let real_dst = (if is_dir w dst then joinpath dst (path_name src) else dst) in
            if is_dir w dst \<and> src = dst then Inr w
            else if is_dir w dst \<and> exists w real_dst
              then Inl (OSError ''Destination path already exists'')
            else if \<not> is_dir w (parent real_dst)
              then Inl (FileNotFoundError (str_path real_dst))
            else
              (case file_size w src of
                 Some n \<Rightarrow>
                   Inr (w\<lparr>files := AList.update real_dst n (AList.delete src (files w))\<rparr>)
               | None \<Rightarrow>
                   if is_file w real_dst then Inl (OSError ''Not a directory'')
                   else if take (length src) real_dst = src
                     then Inl (OSError ''Cannot move a directory into itself'')
                   else Inr (w\<lparr>files := map (\<lambda>(p, n). (rebase src real_dst p, n)) (files w),
                                dirs := rebase src real_dst ` dirs w\<rparr>)))"

section \<open>The watcher\<close>

text \<open>
  The fields of \<^verbatim>\<open>WatchFolderSigner\<close>. \<open>poll_interval\<close> is in milliseconds (a float of
  seconds in the source). \<open>processed_files\<close> is the set of claimed paths.
\<close>

record watcher =
  watch_folder :: path
  output_folder :: path
  profile :: string
  sign_args :: string
  bundle_id :: "string option"
  processed_folder :: "path option"
  failed_folder :: "path option"
  log_file :: "path option"
  poll_interval :: nat
  sign_tools_path :: "path option"
  processed_files :: "path set"

text \<open>
  \<^verbatim>\<open>log\<close>: the line is printed, and appended to the log file when one is configured; a
  failure to write it is printed and goes no further.
\<close>

definition log :: "os \<Rightarrow> watcher \<Rightarrow> string \<Rightarrow> string \<Rightarrow> world \<Rightarrow> world" where
  "log E s message level w =
     (let log_message = LogLine (clock w) level message;
          w1 = w\<lparr>console := console w @ [log_message]\<rparr>
      in case log_file s of
           None \<Rightarrow> w1
         | Some f \<Rightarrow>
             (case open_error E f of
                None \<Rightarrow> w1\<lparr>appended := appended w1 @ [(f, log_message)]\<rparr>
              | Some e \<Rightarrow>
                  w1\<lparr>console := console w1 @ [RawLine (''Failed to write to log file: '' @ e)]\<rparr>))"

definition discard :: "path \<Rightarrow> watcher \<Rightarrow> watcher" where
  "discard p s = s\<lparr>processed_files := processed_files s - {p}\<rparr>"

text \<open>
  The destination path that \<^verbatim>\<open>move_file\<close> chooses: the folder joined with the file's
  name, or, when something of that name exists there, with stem, underscore, time stamp and
  suffix.
\<close>

definition choose_dest_path :: "os \<Rightarrow> world \<Rightarrow> path \<Rightarrow> path \<Rightarrow> path" where
  "choose_dest_path E w dest_folder abs_file_path =
     (if exists w (joinpath dest_folder (path_name abs_file_path))
      then joinpath dest_folder
             (path_stem abs_file_path @ ''_'' @ now_stamp E (clock w) @ path_suffix abs_file_path)
      else joinpath dest_folder (path_name abs_file_path))"

text \<open>
  \<^verbatim>\<open>move_file\<close>. The result is the returned flag, the watcher and the world. Every
  \<^verbatim>\<open>except\<close> clause of the source is a branch here.
\<close>

definition move_file :: "os \<Rightarrow> watcher \<Rightarrow> path \<Rightarrow> path option \<Rightarrow> world \<Rightarrow> bool \<times> watcher \<times> world" where
  "move_file E s file_path dest_folder w =
     (case dest_folder of
        None \<Rightarrow> (True, discard (resolve file_path) s, w)
      | Some d \<Rightarrow>
          (case mkdir_parents E d w of
             Inl e \<Rightarrow>
               (False, s,
                log E s (''Failed to create destination folder '' @ str_path d @ '': '' @ str_exn e)
                  ''ERROR'' w)
           | Inr w1 \<Rightarrow>
               let abs_file_path = resolve file_path in
               if \<not> exists w1 abs_file_path then
                 (True, discard abs_file_path s,
                  log E s (''File no longer exists: '' @ path_name abs_file_path) ''WARN'' w1)
               else
                 let dest_path = choose_dest_path E w1 d abs_file_path
                 in (case shutil_move E abs_file_path dest_path w1 of
                      Inr w2 \<Rightarrow>
                        (True, discard abs_file_path s,
                         log E s (''Moved '' @ path_name abs_file_path @ '' to '' @ str_path d)
                           ''INFO'' w2)
                    | Inl (FileNotFoundError m) \<Rightarrow>
                        (True, discard (resolve file_path) s,
                         log E s (''File not found (may have been deleted): ''
                                  @ path_name (resolve file_path)) ''WARN'' w1)
                    | Inl e \<Rightarrow>
                        (False, discard (resolve file_path) s,
                         log E s (''Failed to move '' @ path_name (resolve file_path) @ '': ''
                                  @ str_exn e) ''ERROR'' w1))))"

text \<open>
  \<^verbatim>\<open>find_sign_tools\<close>: the configured path, the environment variable, the script's
  directory, its parent, up to five ancestors that look like the project root, the search
  path, and the working directory, in this order.
\<close>

definition usable :: "os \<Rightarrow> world \<Rightarrow> path \<Rightarrow> bool" where
  "usable E w p = (exists w p \<and> p \<in> x_ok E)"

definition candidates :: "path \<Rightarrow> path list" where
  "candidates d =
     [joinpath d ''SignTools'',
      d @ [''SignTools.app'', ''Contents'', ''MacOS'', ''SignTools.bin''],
      d @ [''SignTools.app'', ''Contents'', ''MacOS'', ''SignTools'']]"

fun search_up :: "os \<Rightarrow> world \<Rightarrow> nat \<Rightarrow> path \<Rightarrow> path option" where
  "search_up E w 0 current = None"
| "search_up E w (Suc n) current =
     (if exists w (joinpath current ''signer-cfg.yml'') \<or> exists w (joinpath current ''go.mod'')
      then (case List.find (usable E w) (candidates current) of
              Some c \<Rightarrow> Some c
            | None \<Rightarrow> search_up E w n (parent current))
      else search_up E w n (parent current))"

definition search_rest :: "os \<Rightarrow> world \<Rightarrow> path option" where
  "search_rest E w =
     (case List.find (usable E w) (candidates (script_dir E)) of
        Some c \<Rightarrow> Some c
      | None \<Rightarrow>
     (case List.find (usable E w) (candidates (parent (script_dir E))) of
        Some c \<Rightarrow> Some c
      | None \<Rightarrow>
     (case search_up E w 5 (script_dir E) of
        Some c \<Rightarrow> Some c
      | None \<Rightarrow>
     (case which_SignTools E of
        Some c \<Rightarrow> Some c
      | None \<Rightarrow> List.find (usable E w) (candidates (cwd E))))))"

definition find_sign_tools :: "os \<Rightarrow> watcher \<Rightarrow> world \<Rightarrow> path option \<times> world" where
  "find_sign_tools E s w0 =
     (let w = w0\<lparr>resolutions := Suc (resolutions w0)\<rparr> in
      case (case sign_tools_path s of
              Some p \<Rightarrow>
                if usable E w p then (Some p, w)
                else (None,
                      log E s (''Warning: Specified SignTools path does not exist or is not executable: ''
                               @ str_path p) ''WARN'' w)
            | None \<Rightarrow> (None, w)) of
        (Some p, w1) \<Rightarrow> (Some p, w1)
      | (None, w1) \<Rightarrow>
          (case (case environ_SIGNTOOLS_PATH E of
                   Some v \<Rightarrow>
                     if v = [] then (None, w1)
                     else if usable E w1 (mkpath E v) then (Some (mkpath E v), w1)
                     else (None,
                           log E s (''Warning: SIGNTOOLS_PATH environment variable points to invalid path: ''
                                    @ str_path (mkpath E v)) ''WARN'' w1)
                 | None \<Rightarrow> (None, w1)) of
             (Some p, w2) \<Rightarrow> (Some p, w2)
           | (None, w2) \<Rightarrow> (search_rest E w2, w2)))"

fun log_all :: "os \<Rightarrow> watcher \<Rightarrow> string \<Rightarrow> string list \<Rightarrow> world \<Rightarrow> world" where
  "log_all E s level [] w = w"
| "log_all E s level (m # ms) w = log_all E s level ms (log E s m level w)"

definition not_found_lines :: "string \<Rightarrow> string list" where
  "not_found_lines first_line =
     [first_line,
      ''Searched in:'',
      ''  1. Explicitly specified path (config/argument)'',
      ''  2. SIGNTOOLS_PATH environment variable'',
      ''  3. Script directory'',
      ''  4. Parent directory (project root)'',
      ''  5. Project root (detected by signer-cfg.yml or go.mod)'',
      ''  6. PATH environment variable'',
      ''  7. Current working directory'',
      [],
      ''Please specify the path using one of the following methods:'',
      ''  - Set SIGNTOOLS_PATH environment variable'',
      ''  - Add 'sign_tools_path' to config file'',
      ''  - Use --sign-tools-path argument'']"

text \<open>
  \<^verbatim>\<open>subprocess.run(cmd, capture_output=True, text=True, timeout=t)\<close>: the call is recorded;
  a command that runs longer than the timeout raises \<open>TimeoutExpired\<close> once the timeout has
  passed. The output of a command that finished in time is decoded, standard output first;
  output that cannot be decoded raises \<open>UnicodeDecodeError\<close>, whatever the return code.
\<close>

definition subprocess_run ::
  "os \<Rightarrow> string list \<Rightarrow> nat \<Rightarrow> world \<Rightarrow> (exn + int \<times> string \<times> string) \<times> world" where
  "subprocess_run E cmd timeout w =
     (let w1 = w\<lparr>run_calls := run_calls w @ [(cmd, timeout)]\<rparr> in
      case signer E cmd of
        CannotStart e \<Rightarrow> (Inl e, w1)
      | Completes d returncode out err \<Rightarrow>
          if timeout * 1000 < d then (Inl TimeoutExpired, wait E (timeout * 1000) w1)
          else
            (case decode E out of
               None \<Rightarrow> (Inl (UnicodeDecodeError ''stdout''), wait E d w1)
             | Some stdout \<Rightarrow>
                 (case decode E err of
                    None \<Rightarrow> (Inl (UnicodeDecodeError ''stderr''), wait E d w1)
                  | Some stderr \<Rightarrow> (Inr (returncode, stdout, stderr), wait E d w1))))"

text \<open>The command line that \<^verbatim>\<open>sign_ipa\<close> builds.\<close>

definition build_cmd :: "watcher \<Rightarrow> path \<Rightarrow> path \<Rightarrow> path \<Rightarrow> string list" where
  "build_cmd s sign_tools abs_ipa_path output_path =
     [str_path sign_tools, ''-headless'',
      ''-ipa'', str_path abs_ipa_path,
      ''-profile'', profile s,
      ''-output'', str_path output_path]
     @ (if sign_args s \<noteq> [] then [''-args'', sign_args s] else [])
     @ (case bundle_id s of
          None \<Rightarrow> []
        | Some b \<Rightarrow> if b \<noteq> [] then [''-bundle-id'', b] else [])"

fun join_sp :: "string list \<Rightarrow> string" where
  "join_sp [] = []"
| "join_sp [x] = x"
| "join_sp (x # y # ys) = x @ '' '' @ join_sp (y # ys)"

text \<open>
  The block that ends every failing path of \<^verbatim>\<open>sign_ipa\<close>: move to the failed folder if
  one is configured, otherwise release the claim.
\<close>

definition route_failed :: "os \<Rightarrow> watcher \<Rightarrow> path \<Rightarrow> world \<Rightarrow> watcher \<times> world" where
  "route_failed E s abs_ipa_path w =
     (case failed_folder s of
        Some d \<Rightarrow> snd (move_file E s abs_ipa_path (Some d) w)
      | None \<Rightarrow> (discard abs_ipa_path s, w))"

definition sign_ipa :: "os \<Rightarrow> watcher \<Rightarrow> path \<Rightarrow> world \<Rightarrow> bool \<times> watcher \<times> world" where
  "sign_ipa E s ipa_path w =
     (let abs_ipa_path = resolve ipa_path in
      if abs_ipa_path \<in> processed_files s then (False, s, w)
      else
        let w1 = log E s (''Processing: '' @ path_name ipa_path) ''INFO'' w;
            s1 = s\<lparr>processed_files := insert abs_ipa_path (processed_files s)\<rparr>;
            output_name = path_stem abs_ipa_path @ ''_signed.ipa'';
            output_path = joinpath (output_folder s1) output_name;
            found = find_sign_tools E s1 w1;
            w2 = snd found
        in (case fst found of
              None \<Rightarrow>
                (False,
                 route_failed E s1 abs_ipa_path
                   (log_all E s1 ''ERROR''
                      (not_found_lines ''Error: SignTools executable not found'') w2))
            | Some sign_tools \<Rightarrow>
                let cmd = build_cmd s1 sign_tools abs_ipa_path output_path;
                    w3 = log E s1 (''Running: '' @ join_sp cmd) ''INFO'' w2;
                    ran = subprocess_run E cmd 1800 w3;
                    w4 = snd ran
                in (case fst ran of
                      Inr (returncode, out, err) \<Rightarrow>
                        if returncode = 0 then
                          let w5 = log E s1 (''Successfully signed: '' @ path_name output_path)
                                     ''INFO'' w4
                          in (case processed_folder s1 of
                                Some d \<Rightarrow> (True, snd (move_file E s1 abs_ipa_path (Some d) w5))
                              | None \<Rightarrow> (True, discard abs_ipa_path s1, w5))
                        else
                          (False,
                           route_failed E s1 abs_ipa_path
                             (log E s1 (''Output: '' @ out) ''ERROR''
                                (log E s1 (''Signing failed for '' @ path_name ipa_path @ '': '' @ err)
                                   ''ERROR'' w4)))
                    | Inl TimeoutExpired \<Rightarrow>
                        (False,
                         route_failed E s1 abs_ipa_path
                           (log E s1 (''Signing timed out for '' @ path_name ipa_path) ''ERROR'' w4))
                    | Inl e \<Rightarrow>
                        (False,
                         route_failed E s1 abs_ipa_path
                           (log E s1 (''Error signing '' @ path_name ipa_path @ '': '' @ str_exn e)
                              ''ERROR'' w4)))))"

text \<open>
  \<^verbatim>\<open>scan_and_process\<close>. The candidates are the regular files directly in the watch
  folder whose name ends in \<^verbatim>\<open>.ipa\<close>. \<open>scan_one\<close> is the body of the loop over them
  and \<open>scan_loop\<close> the loop; \<^verbatim>\<open>time.sleep(0.5)\<close> is a wait of 500 milliseconds.
\<close>

definition endswith :: "string \<Rightarrow> string \<Rightarrow> bool" where
  "endswith n suf = (length suf \<le> length n \<and> drop (length n - length suf) n = suf)"

definition ipa_files :: "world \<Rightarrow> path \<Rightarrow> path list" where
  "ipa_files w d =
     map resolve
       (filter (is_file w)
          (filter (\<lambda>f. f \<noteq> [] \<and> parent f = d \<and> endswith (path_name f) ''.ipa'')
             (map fst (files w))))"

definition scan_one :: "os \<Rightarrow> watcher \<Rightarrow> path \<Rightarrow> world \<Rightarrow> watcher \<times> world" where
  "scan_one E s ipa_file w =
     (if ipa_file \<in> processed_files s then (s, w)
      else
        (case stat_size E w ipa_file of
           Inl e \<Rightarrow> (s, w)
         | Inr file_size_before \<Rightarrow>
             let w1 = wait E 500 w in
             (case stat_size E w1 ipa_file of
                Inl e \<Rightarrow> (s, w1)
              | Inr file_size_after \<Rightarrow>
                  if file_size_before \<noteq> file_size_after then (s, w1)
                  else snd (sign_ipa E s ipa_file w1))))"

fun scan_loop :: "os \<Rightarrow> path list \<Rightarrow> watcher \<Rightarrow> world \<Rightarrow> watcher \<times> world" where
  "scan_loop E [] s w = (s, w)"
| "scan_loop E (ipa_file # rest) s w =
     scan_loop E rest (fst (scan_one E s ipa_file w)) (snd (scan_one E s ipa_file w))"

definition scan_and_process :: "os \<Rightarrow> watcher \<Rightarrow> world \<Rightarrow> watcher \<times> world" where
  "scan_and_process E s w0 =
     (let w = w0\<lparr>scans := Suc (scans w0)\<rparr> in
      if \<not> exists w (watch_folder s) then
        (s, log E s (''Watch folder does not exist: '' @ str_path (watch_folder s)) ''ERROR'' w)
      else scan_loop E (ipa_files w (watch_folder s)) s w)"

text \<open>
  \<^verbatim>\<open>run\<close>. The loop \<^verbatim>\<open>while True\<close> of the source ends only with an interrupt from the
  keyboard or an exception; no operation of a scan cycle raises in this model, and the
  interrupt is outside it, so \<open>poll_loop\<close> runs a given number of cycles and \<open>run\<close> returns
  the exception raised at startup, or \<open>None\<close> while the loop is still going after that many
  cycles.
\<close>

fun poll_loop :: "os \<Rightarrow> nat \<Rightarrow> watcher \<Rightarrow> world \<Rightarrow> watcher \<times> world" where
  "poll_loop E 0 s w = (s, w)"
| "poll_loop E (Suc n) s w =
     poll_loop E n (fst (scan_and_process E s w))
       (wait E (poll_interval (fst (scan_and_process E s w))) (snd (scan_and_process E s w)))"

definition start_lines :: "os \<Rightarrow> watcher \<Rightarrow> path \<Rightarrow> string list" where
  "start_lines E s sign_tools =
     [''Starting Watch Folder Signer'',
      ''SignTools: '' @ str_path sign_tools,
      ''Watch folder: '' @ str_path (watch_folder s),
      ''Output folder: '' @ str_path (output_folder s),
      ''Profile: '' @ profile s,
      ''Sign args: '' @ (if sign_args s \<noteq> [] then sign_args s else ''(none)''),
      ''Poll interval: '' @ str_interval E (poll_interval s) @ '' seconds'',
      ''Press Ctrl+C to stop'',
      []]"

definition run :: "os \<Rightarrow> nat \<Rightarrow> watcher \<Rightarrow> world \<Rightarrow> exn option \<times> watcher \<times> world" where
  "run E cycles s w =
     (let found = find_sign_tools E s w; w1 = snd found in
      case fst found of
        None \<Rightarrow>
          (Some (RuntimeError ''SignTools executable not found''), s,
           log_all E s ''ERROR''
             (not_found_lines ''Error: SignTools executable not found at startup'') w1)
      | Some sign_tools \<Rightarrow>
          (None, poll_loop E cycles s (log_all E s ''INFO'' (start_lines E s sign_tools) w1)))"

text \<open>
  \<^verbatim>\<open>WatchFolderSigner.__init__\<close>. The arguments are strings as \<^verbatim>\<open>main\<close> passes them; an
  optional folder that is absent or empty is not configured. A \<^verbatim>\<open>mkdir\<close> that raises ends
  the construction with that exception.
\<close>

record init_args =
  arg_watch_folder :: string
  arg_output_folder :: string
  arg_profile :: string
  arg_sign_args :: string
  arg_bundle_id :: "string option"
  arg_processed_folder :: "string option"
  arg_failed_folder :: "string option"
  arg_log_file :: "string option"
  arg_poll_interval :: nat
  arg_sign_tools_path :: "string option"

definition opt_path :: "os \<Rightarrow> string option \<Rightarrow> path option" where
  "opt_path E a =
     (case a of
        None \<Rightarrow> None
      | Some x \<Rightarrow> if x = [] then None else Some (mkpath E x))"

definition mkdir_opt :: "os \<Rightarrow> path option \<Rightarrow> world \<Rightarrow> exn + world" where
  "mkdir_opt E d w = (case d of None \<Rightarrow> Inr w | Some p \<Rightarrow> mkdir_parents E p w)"

definition new_watcher :: "os \<Rightarrow> init_args \<Rightarrow> watcher" where
  "new_watcher E a =
     \<lparr>watch_folder = mkpath E (arg_watch_folder a),
      output_folder = mkpath E (arg_output_folder a),
      profile = arg_profile a,
      sign_args = arg_sign_args a,
      bundle_id = arg_bundle_id a,
      processed_folder = opt_path E (arg_processed_folder a),
      failed_folder = opt_path E (arg_failed_folder a),
      log_file = opt_path E (arg_log_file a),
      poll_interval = arg_poll_interval a,
      sign_tools_path = opt_path E (arg_sign_tools_path a),
      processed_files = {}\<rparr>"

definition init :: "os \<Rightarrow> init_args \<Rightarrow> world \<Rightarrow> exn + watcher \<times> world" where
  "init E a w =
     (let s = new_watcher E a in
      case mkdir_parents E (watch_folder s) w of
        Inl e \<Rightarrow> Inl e
      | Inr w1 \<Rightarrow>
     (case mkdir_parents E (output_folder s) w1 of
        Inl e \<Rightarrow> Inl e
      | Inr w2 \<Rightarrow>
     (case mkdir_opt E (processed_folder s) w2 of
        Inl e \<Rightarrow> Inl e
      | Inr w3 \<Rightarrow>
     (case mkdir_opt E (failed_folder s) w3 of
        Inl e \<Rightarrow> Inl e
      | Inr w4 \<Rightarrow> Inr (s, w4)))))"

text \<open>
  The end of \<^verbatim>\<open>main\<close>, after the arguments are parsed: the watcher is constructed and
  run. An exception that leaves \<^verbatim>\<open>main\<close> ends the interpreter with exit status 1;
  \<open>None\<close> is a process that is still polling.
\<close>

definition main :: "os \<Rightarrow> nat \<Rightarrow> init_args \<Rightarrow> world \<Rightarrow> int option \<times> world" where
  "main E cycles a w =
     (case init E a w of
        Inl e \<Rightarrow> (Some 1, w)
      | Inr (s, w1) \<Rightarrow>
          (case run E cycles s w1 of
             (Some e, s2, w2) \<Rightarrow> (Some 1, w2)
           | (None, s2, w2) \<Rightarrow> (None, w2)))"

section \<open>A concrete installation\<close>

text \<open>
  One installation, used to run the model on concrete inputs: the signer sits beside the
  script, exits with status 0 after one second, no system call fails and nobody else
  touches the file system. The watch folder holds \<^verbatim>\<open>/watch/app.ipa\<close> of five bytes.
\<close>

definition demo_ipa :: path where
  "demo_ipa = [''watch'', ''app.ipa'']"

definition demo_os :: os where
  "demo_os =
     \<lparr>others = (\<lambda>t fs. fs),
      mkdir_error = (\<lambda>p. None),
      move_error = (\<lambda>src dst. None),
      open_error = (\<lambda>p. None),
      dir_size = (\<lambda>p. 4096),
      signer = (\<lambda>cmd. Completes 1000 0 [] []),
      decode = (\<lambda>bytes. Some bytes),
      now_stamp = (\<lambda>t. ''20260101_000000''),
      str_interval = (\<lambda>n. ''2.0''),
      mkpath = (\<lambda>x. [x]),
      x_ok = {[''opt'', ''SignTools'']},
      environ_SIGNTOOLS_PATH = None,
      script_dir = [''opt''],
      which_SignTools = None,
      cwd = [''home'']\<rparr>"

definition demo_world :: world where
  "demo_world =
     \<lparr>files = [([''watch'', ''app.ipa''], 5), ([''opt'', ''SignTools''], 100)],
      dirs = {[''watch''], [''out''], [''opt'']},
      clock = 0,
      console = [],
      appended = [],
      run_calls = [],
      resolutions = 0,
      scans = 0\<rparr>"

definition demo_watcher :: watcher where
  "demo_watcher =
     \<lparr>watch_folder = [''watch''],
      output_folder = [''out''],
      profile = ''dev'',
      sign_args = [],
      bundle_id = None,
      processed_folder = Some [''done''],
      failed_folder = Some [''failed''],
      log_file = None,
      poll_interval = 2000,
      sign_tools_path = None,
      processed_files = {}\<rparr>"

definition demo_args :: init_args where
  "demo_args =
     \<lparr>arg_watch_folder = ''watch'',
      arg_output_folder = ''out'',
      arg_profile = ''dev'',
      arg_sign_args = [],
      arg_bundle_id = None,
      arg_processed_folder = Some ''done'',
      arg_failed_folder = Some ''failed'',
      arg_log_file = None,
      arg_poll_interval = 2000,
      arg_sign_tools_path = None\<rparr>"

text \<open>Variants of it: another actor keeps writing to the file while the program waits.\<close>

definition demo_os_growing :: os where
  "demo_os_growing =
     demo_os\<lparr>others := (\<lambda>t fs. (AList.update demo_ipa 9 (fst fs), snd fs))\<rparr>"

text \<open>No executable anywhere; and the world once the watcher has been constructed.\<close>

definition demo_os_no_signer :: os where
  "demo_os_no_signer = demo_os\<lparr>x_ok := {}\<rparr>"

definition demo_world_ready :: world where
  "demo_world_ready =
     demo_world\<lparr>dirs := {[''watch''], [''out''], [''opt''], [''done''], [''failed'']}\<rparr>"

text \<open>A watcher with extra signing arguments and a bundle id.\<close>

definition demo_watcher_args :: watcher where
  "demo_watcher_args = demo_watcher\<lparr>sign_args := ''-a -d'', bundle_id := Some ''com.example.app''\<rparr>"

text \<open>The processed folder already holds a file of the same name; and one of the stamped name too.\<close>

definition demo_world_taken :: world where
  "demo_world_taken =
     demo_world_ready\<lparr>files :=
       [([''watch'', ''app.ipa''], 5), ([''opt'', ''SignTools''], 100),
        ([''done'', ''app.ipa''], 7)]\<rparr>"

definition demo_world_taken_twice :: world where
  "demo_world_taken_twice =
     demo_world_ready\<lparr>files :=
       [([''watch'', ''app.ipa''], 5), ([''opt'', ''SignTools''], 100),
        ([''done'', ''app.ipa''], 7), ([''done'', ''app_20260101_000000.ipa''], 9)]\<rparr>"


section \<open>What logging leaves alone\<close>

lemmas demo_defs = demo_ipa_def demo_os_def demo_world_def demo_watcher_def demo_args_def

lemmas fs_defs = file_size_def is_file_def is_dir_def exists_def stat_size_def wait_def
  mkdir_parents_def prefixes_of_def shutil_move_def joinpath_def parent_def path_name_def
  path_stem_def path_suffix_def rfind_dot_def resolve_def str_path_def str_exn_def

lemmas run_defs = log_def discard_def choose_dest_path_def move_file_def usable_def candidates_def search_rest_def
  find_sign_tools_def not_found_lines_def subprocess_run_def build_cmd_def route_failed_def
  sign_ipa_def

lemma log_fields [simp]:
  "files (log E s m l w) = files w"
  "dirs (log E s m l w) = dirs w"
  "clock (log E s m l w) = clock w"
  "run_calls (log E s m l w) = run_calls w"
  "resolutions (log E s m l w) = resolutions w"
  "scans (log E s m l w) = scans w"
  by (simp_all add: log_def Let_def split: option.splits)

lemma log_all_fields [simp]:
  "files (log_all E s l ms w) = files w"
  "dirs (log_all E s l ms w) = dirs w"
  "clock (log_all E s l ms w) = clock w"
  "run_calls (log_all E s l ms w) = run_calls w"
  "resolutions (log_all E s l ms w) = resolutions w"
  "scans (log_all E s l ms w) = scans w"
  by (induction ms arbitrary: w) simp_all

lemma log_fs [simp]:
  "file_size (log E s m l w) = file_size w"
  "is_file (log E s m l w) = is_file w"
  "is_dir (log E s m l w) = is_dir w"
  "exists (log E s m l w) = exists w"
  by (simp_all add: fun_eq_iff file_size_def is_file_def is_dir_def exists_def)

lemma log_all_fs [simp]:
  "file_size (log_all E s l ms w) = file_size w"
  "is_file (log_all E s l ms w) = is_file w"
  "is_dir (log_all E s l ms w) = is_dir w"
  "exists (log_all E s l ms w) = exists w"
  by (simp_all add: fun_eq_iff file_size_def is_file_def is_dir_def exists_def)

lemma counters_fs [simp]:
  "exists (w\<lparr>scans := n\<rparr>) = exists w"
  "exists (w\<lparr>resolutions := n\<rparr>) = exists w"
  "exists (w\<lparr>run_calls := c\<rparr>) = exists w"
  by (simp_all add: fun_eq_iff file_size_def is_file_def is_dir_def exists_def)

lemma log_console: "LogLine (clock w) l m \<in> set (console (log E s m l w))"
  by (simp add: log_def Let_def split: option.splits)

section \<open>A destination folder that cannot be created\<close>

lemma move_file_mkdir_failure:
  "mkdir_parents E d w = Inl e \<Longrightarrow>
   move_file E s p (Some d) w =
     (False, s,
      log E s (''Failed to create destination folder '' @ str_path d @ '': '' @ str_exn e)
        ''ERROR'' w)"
  by (simp add: move_file_def)

text \<open>
  C1. The claim is that a move whose destination folder cannot be created leaves the path
  unclaimed. The code returns before it releases the claim: with \<^verbatim>\<open>/watch/app.ipa\<close>
  claimed and the creation of \<^verbatim>\<open>/failed\<close> refused, \<^verbatim>\<open>move_file\<close> returns
  \<^verbatim>\<open>False\<close>, logs the error and leaves the watcher as it was, the path still in
  \<^verbatim>\<open>processed_files\<close>.
\<close>

theorem move_file_unreachable_destination_keeps_claim:
  "move_file
     (demo_os\<lparr>mkdir_error :=
        (\<lambda>p. if p = [''failed''] then Some ''Permission denied'' else None)\<rparr>)
     (demo_watcher\<lparr>processed_files := {demo_ipa}\<rparr>) demo_ipa (Some [''failed'']) demo_world
   = (False, demo_watcher\<lparr>processed_files := {demo_ipa}\<rparr>,
      demo_world\<lparr>console :=
        [LogLine 0 ''ERROR''
           ''Failed to create destination folder /failed: Permission denied'']\<rparr>)"
  by (simp add: demo_defs fs_defs run_defs Let_def upt_rec)

section \<open>A claimed path\<close>

text \<open>
  C4. A path that is in the claim set is not dispatched again: \<^verbatim>\<open>sign_ipa\<close> returns
  \<^verbatim>\<open>False\<close> and leaves the watcher and the world as they were (so no signer is
  spawned and nothing is logged), and the scan loop passes over the candidate without any
  effect.
\<close>

theorem claimed_path_is_not_dispatched:
  assumes "resolve p \<in> processed_files s"
  shows "sign_ipa E s p w = (False, s, w)
       \<and> run_calls (snd (snd (sign_ipa E s p w))) = run_calls w
       \<and> scan_one E s (resolve p) w = (s, w)
       \<and> scan_loop E (resolve p # rest) s w = scan_loop E rest s w"
  using assms by (simp add: sign_ipa_def scan_one_def)

theorem claimed_path_is_not_dispatched_witness:
  "resolve demo_ipa \<in> processed_files (demo_watcher\<lparr>processed_files := {demo_ipa}\<rparr>)
   \<and> sign_ipa demo_os (demo_watcher\<lparr>processed_files := {demo_ipa}\<rparr>) demo_ipa demo_world
       = (False, demo_watcher\<lparr>processed_files := {demo_ipa}\<rparr>, demo_world)
   \<and> scan_loop demo_os [resolve demo_ipa] (demo_watcher\<lparr>processed_files := {demo_ipa}\<rparr>)
       demo_world
       = (demo_watcher\<lparr>processed_files := {demo_ipa}\<rparr>, demo_world)"
proof -
  have h: "resolve demo_ipa \<in> processed_files (demo_watcher\<lparr>processed_files := {demo_ipa}\<rparr>)"
    by (simp add: resolve_def)
  show ?thesis
    using h claimed_path_is_not_dispatched [OF h, of demo_os demo_world "[]"] by simp
qed

section \<open>The stability check\<close>

text \<open>
  C6. For a candidate that is not claimed, the scan reads the size, waits 500 milliseconds
  and reads the size again. If the two sizes differ, or the second read fails because the
  file is gone, or the first read fails, the candidate is passed over: the watcher (and with
  it the claim set) is as before, nothing is printed and no signer is run. Only when both
  reads succeed with the same size is \<^verbatim>\<open>sign_ipa\<close> called.
\<close>

theorem stability_check:
  assumes "p \<notin> processed_files s"
  shows "(stat_size E w p = Inr a \<and> stat_size E (wait E 500 w) p = Inr b \<and> a \<noteq> b
            \<longrightarrow> scan_one E s p w = (s, wait E 500 w))
       \<and> (stat_size E w p = Inr a \<and> stat_size E (wait E 500 w) p = Inl e
            \<longrightarrow> scan_one E s p w = (s, wait E 500 w))
       \<and> (stat_size E w p = Inl e \<longrightarrow> scan_one E s p w = (s, w))
       \<and> (stat_size E w p = Inr a \<and> stat_size E (wait E 500 w) p = Inr a
            \<longrightarrow> scan_one E s p w = snd (sign_ipa E s p (wait E 500 w)))
       \<and> clock (wait E 500 w) = clock w + 500
       \<and> console (wait E 500 w) = console w
       \<and> run_calls (wait E 500 w) = run_calls w"
  using assms by (simp add: scan_one_def Let_def wait_def)

theorem stability_check_witness:
  "demo_ipa \<notin> processed_files demo_watcher
   \<and> stat_size demo_os_growing demo_world demo_ipa = Inr 5
   \<and> stat_size demo_os_growing (wait demo_os_growing 500 demo_world) demo_ipa = Inr 9
   \<and> (5::nat) \<noteq> 9
   \<and> scan_one demo_os_growing demo_watcher demo_ipa demo_world
       = (demo_watcher, wait demo_os_growing 500 demo_world)
   \<and> clock (wait demo_os_growing 500 demo_world) = 500"
proof -
  have h: "demo_ipa \<notin> processed_files demo_watcher" by (simp add: demo_defs)
  have a: "stat_size demo_os_growing demo_world demo_ipa = Inr 5"
    by (simp add: demo_os_growing_def demo_defs fs_defs)
  have b: "stat_size demo_os_growing (wait demo_os_growing 500 demo_world) demo_ipa = Inr 9"
    by (simp add: demo_os_growing_def demo_defs fs_defs)
  show ?thesis
    using h a b stability_check [OF h, of demo_os_growing demo_world 5 9]
    by (simp add: demo_world_def)
qed

section \<open>A source that is gone when it is to be moved\<close>




section \<open>A watch folder that is gone\<close>

text \<open>
  C10. When the watch folder does not exist at the start of a scan cycle,
  \<^verbatim>\<open>scan_and_process\<close> logs an error and returns: the watcher, and with it the claim set,
  is as before, no signer is run, and the polling loop goes on to its wait and its next
  cycle.
\<close>

theorem scan_without_watch_folder:
  assumes "\<not> exists w (watch_folder s)"
  shows "scan_and_process E s w =
           (s, log E s (''Watch folder does not exist: '' @ str_path (watch_folder s)) ''ERROR''
                 (w\<lparr>scans := Suc (scans w)\<rparr>))
       \<and> LogLine (clock w) ''ERROR'' (''Watch folder does not exist: '' @ str_path (watch_folder s))
           \<in> set (console (snd (scan_and_process E s w)))
       \<and> run_calls (snd (scan_and_process E s w)) = run_calls w
       \<and> poll_loop E (Suc n) s w =
           poll_loop E n s (wait E (poll_interval s) (snd (scan_and_process E s w)))"
proof -
  have eq: "scan_and_process E s w =
           (s, log E s (''Watch folder does not exist: '' @ str_path (watch_folder s)) ''ERROR''
                 (w\<lparr>scans := Suc (scans w)\<rparr>))"
    using assms by (simp add: scan_and_process_def Let_def)
  have mem: "LogLine (clock (w\<lparr>scans := Suc (scans w)\<rparr>)) ''ERROR''
               (''Watch folder does not exist: '' @ str_path (watch_folder s))
           \<in> set (console (log E s (''Watch folder does not exist: '' @ str_path (watch_folder s))
                 ''ERROR'' (w\<lparr>scans := Suc (scans w)\<rparr>)))"
    by (rule log_console)
  show ?thesis using mem by (simp add: eq)
qed

theorem scan_without_watch_folder_witness:
  "\<not> exists (demo_world\<lparr>dirs := {}\<rparr>) (watch_folder demo_watcher)
   \<and> fst (scan_and_process demo_os demo_watcher (demo_world\<lparr>dirs := {}\<rparr>)) = demo_watcher
   \<and> console (snd (scan_and_process demo_os demo_watcher (demo_world\<lparr>dirs := {}\<rparr>)))
       = [LogLine 0 ''ERROR'' ''Watch folder does not exist: /watch'']
   \<and> poll_loop demo_os (Suc 0) demo_watcher (demo_world\<lparr>dirs := {}\<rparr>)
       = (demo_watcher,
          wait demo_os 2000
            (snd (scan_and_process demo_os demo_watcher (demo_world\<lparr>dirs := {}\<rparr>))))"
proof -
  have h: "\<not> exists (demo_world\<lparr>dirs := {}\<rparr>) (watch_folder demo_watcher)"
    by (simp add: demo_defs fs_defs)
  show ?thesis
    using h scan_without_watch_folder [OF h, of demo_os 0]
    by (simp add: demo_defs log_def str_path_def)
qed

section \<open>Construction\<close>

lemma self_in_prefixes: "d \<noteq> [] \<Longrightarrow> d \<in> set (prefixes_of d)"
proof -
  assume "d \<noteq> []"
  then have "length d \<in> set [1..<Suc (length d)]" by (cases d) auto
  then have "take (length d) d \<in> (\<lambda>n. take n d) ` set [1..<Suc (length d)]"
    by (rule imageI)
  then show ?thesis by (simp add: prefixes_of_def)
qed

lemma mkdir_parents_result:
  assumes "mkdir_parents E d w = Inr w'"
  shows "is_dir w' d" and "dirs w \<subseteq> dirs w'" and "files w' = files w"
    and "scans w' = scans w" and "run_calls w' = run_calls w" and "clock w' = clock w"
    and "resolutions w' = resolutions w" and "console w' = console w"
  using assms self_in_prefixes [of d]
  by (auto simp add: mkdir_parents_def is_dir_def split: if_splits option.splits)

lemma mkdir_opt_result:
  assumes "mkdir_opt E d w = Inr w'"
  shows "\<forall>p. d = Some p \<longrightarrow> is_dir w' p" and "dirs w \<subseteq> dirs w'" and "files w' = files w"
    and "scans w' = scans w" and "run_calls w' = run_calls w" and "clock w' = clock w"
    and "resolutions w' = resolutions w" and "console w' = console w"
  using assms mkdir_parents_result [of E _ w w']
  by (auto simp add: mkdir_opt_def split: option.splits)

lemma is_dir_mono: "is_dir w p \<Longrightarrow> dirs w \<subseteq> dirs w' \<Longrightarrow> is_dir w' p"
  by (auto simp add: is_dir_def)

text \<open>
  C9. When the construction of the watcher succeeds, the watch folder and the output folder
  are directories in the resulting world, and so are the processed and the failed folder
  when they are configured. The construction runs no scan cycle and no signer and touches no
  file, and the claim set starts empty.
\<close>

theorem init_creates_folders:
  assumes "init E a w = Inr (s, w')"
  shows "s = new_watcher E a
       \<and> is_dir w' (watch_folder s) \<and> is_dir w' (output_folder s)
       \<and> (\<forall>d. processed_folder s = Some d \<longrightarrow> is_dir w' d)
       \<and> (\<forall>d. failed_folder s = Some d \<longrightarrow> is_dir w' d)
       \<and> processed_files s = {}
       \<and> scans w' = scans w \<and> run_calls w' = run_calls w \<and> files w' = files w
       \<and> dirs w \<subseteq> dirs w'"
proof -
  from assms obtain w1 w2 w3 where
    s: "s = new_watcher E a"
    and m1: "mkdir_parents E (watch_folder s) w = Inr w1"
    and m2: "mkdir_parents E (output_folder s) w1 = Inr w2"
    and m3: "mkdir_opt E (processed_folder s) w2 = Inr w3"
    and m4: "mkdir_opt E (failed_folder s) w3 = Inr w'"
    by (auto simp add: init_def Let_def split: sum.splits)
  note r1 = mkdir_parents_result [OF m1] and r2 = mkdir_parents_result [OF m2]
    and r3 = mkdir_opt_result [OF m3] and r4 = mkdir_opt_result [OF m4]
  have d1: "is_dir w' (watch_folder s)"
    using r1(1) r2(2) r3(2) r4(2) by (auto intro: is_dir_mono)
  have d2: "is_dir w' (output_folder s)"
    using r2(1) r3(2) r4(2) by (auto intro: is_dir_mono)
  have d3: "\<forall>d. processed_folder s = Some d \<longrightarrow> is_dir w' d"
    using r3(1) r4(2) by (auto intro: is_dir_mono)
  have d4: "\<forall>d. failed_folder s = Some d \<longrightarrow> is_dir w' d"
    using r4(1) by auto
  have e: "processed_files s = {}" using s by (simp add: new_watcher_def)
  have c: "scans w' = scans w" "run_calls w' = run_calls w" "files w' = files w"
    using r1 r2 r3 r4 by simp_all
  have sub: "dirs w \<subseteq> dirs w'" using r1(2) r2(2) r3(2) r4(2) by blast
  show ?thesis using s d1 d2 d3 d4 e c sub by blast
qed

theorem init_creates_folders_witness:
  "init demo_os demo_args demo_world = Inr (demo_watcher, demo_world_ready)
   \<and> \<not> is_dir demo_world [''done''] \<and> \<not> is_dir demo_world [''failed'']
   \<and> is_dir demo_world_ready [''watch''] \<and> is_dir demo_world_ready [''out'']
   \<and> is_dir demo_world_ready [''done''] \<and> is_dir demo_world_ready [''failed'']
   \<and> scans demo_world_ready = scans demo_world"
proof -
  have h: "init demo_os demo_args demo_world = Inr (demo_watcher, demo_world_ready)"
    by (simp add: init_def new_watcher_def opt_path_def mkdir_opt_def demo_world_ready_def
      demo_defs fs_defs upt_rec Let_def insert_commute)
  show ?thesis
    using h init_creates_folders [OF h]
    by (simp add: demo_defs is_dir_def)
qed

section \<open>Startup\<close>

lemma find_sign_tools_world:
  "resolutions (snd (find_sign_tools E s w)) = Suc (resolutions w)"
  "scans (snd (find_sign_tools E s w)) = scans w"
  "run_calls (snd (find_sign_tools E s w)) = run_calls w"
  "files (snd (find_sign_tools E s w)) = files w"
  "dirs (snd (find_sign_tools E s w)) = dirs w"
  "clock (snd (find_sign_tools E s w)) = clock w"
  by (simp_all add: find_sign_tools_def Let_def split: option.splits prod.splits if_splits)

text \<open>
  C8. \<^verbatim>\<open>run\<close> resolves the executable once before anything else. If that fails, it
  raises \<^verbatim>\<open>RuntimeError\<close>: no scan cycle has run, no signer has been run, no time has
  passed, and \<^verbatim>\<open>main\<close> ends with exit status 1. If it succeeds, the polling loop is
  entered in a world in which exactly that one resolution and no scan cycle has happened.
\<close>

theorem startup_resolution:
  "(fst (find_sign_tools E s w) = None \<longrightarrow>
      fst (run E n s w) = Some (RuntimeError ''SignTools executable not found'')
      \<and> fst (snd (run E n s w)) = s
      \<and> scans (snd (snd (run E n s w))) = scans w
      \<and> resolutions (snd (snd (run E n s w))) = Suc (resolutions w)
      \<and> run_calls (snd (snd (run E n s w))) = run_calls w
      \<and> files (snd (snd (run E n s w))) = files w
      \<and> clock (snd (snd (run E n s w))) = clock w
      \<and> (init E a w0 = Inr (s, w) \<longrightarrow> fst (main E n a w0) = Some 1))
   \<and> (fst (find_sign_tools E s w) = Some t \<longrightarrow>
        (\<exists>w2. run E n s w = (None, poll_loop E n s w2)
              \<and> resolutions w2 = Suc (resolutions w) \<and> scans w2 = scans w
              \<and> run_calls w2 = run_calls w \<and> files w2 = files w \<and> dirs w2 = dirs w))"
  by (auto simp add: run_def main_def Let_def find_sign_tools_world
      split: prod.splits option.splits)

theorem startup_resolution_witness:
  "fst (find_sign_tools demo_os_no_signer demo_watcher demo_world_ready) = None
   \<and> init demo_os_no_signer demo_args demo_world = Inr (demo_watcher, demo_world_ready)
   \<and> fst (run demo_os_no_signer 3 demo_watcher demo_world_ready)
       = Some (RuntimeError ''SignTools executable not found'')
   \<and> scans (snd (snd (run demo_os_no_signer 3 demo_watcher demo_world_ready))) = 0
   \<and> resolutions (snd (snd (run demo_os_no_signer 3 demo_watcher demo_world_ready))) = 1
   \<and> fst (main demo_os_no_signer 3 demo_args demo_world) = Some 1
   \<and> fst (find_sign_tools demo_os demo_watcher demo_world_ready) = Some [''opt'', ''SignTools'']
   \<and> (\<exists>w2. run demo_os 3 demo_watcher demo_world_ready
               = (None, poll_loop demo_os 3 demo_watcher w2)
            \<and> resolutions w2 = 1 \<and> scans w2 = 0)"
proof -
  have h1: "fst (find_sign_tools demo_os_no_signer demo_watcher demo_world_ready) = None"
    by (simp add: demo_os_no_signer_def demo_world_ready_def demo_defs fs_defs run_defs Let_def
      eval_nat_numeral)
  have h2: "init demo_os_no_signer demo_args demo_world = Inr (demo_watcher, demo_world_ready)"
    by (simp add: init_def new_watcher_def opt_path_def mkdir_opt_def demo_world_ready_def
      demo_os_no_signer_def demo_defs fs_defs upt_rec Let_def insert_commute)
  have h3: "fst (find_sign_tools demo_os demo_watcher demo_world_ready)
              = Some [''opt'', ''SignTools'']"
    by (simp add: demo_world_ready_def demo_defs fs_defs run_defs Let_def)
  have c: "scans demo_world_ready = 0" "resolutions demo_world_ready = 0"
    by (simp_all add: demo_world_ready_def demo_world_def)
  have a: "fst (run demo_os_no_signer 3 demo_watcher demo_world_ready)
             = Some (RuntimeError ''SignTools executable not found'')
           \<and> scans (snd (snd (run demo_os_no_signer 3 demo_watcher demo_world_ready))) = 0
           \<and> resolutions (snd (snd (run demo_os_no_signer 3 demo_watcher demo_world_ready))) = 1
           \<and> fst (main demo_os_no_signer 3 demo_args demo_world) = Some 1"
    using h1 h2 c
      startup_resolution [of demo_os_no_signer demo_watcher demo_world_ready 3 demo_args
        demo_world]
    by simp
  have b: "\<exists>w2. run demo_os 3 demo_watcher demo_world_ready
               = (None, poll_loop demo_os 3 demo_watcher w2)
            \<and> resolutions w2 = 1 \<and> scans w2 = 0"
    using h3 c
      startup_resolution [where E = demo_os and s = demo_watcher and w = demo_world_ready
        and t = "[''opt'', ''SignTools'']" and n = 3]
    by auto
  show ?thesis using h1 h2 h3 a b by simp
qed

section \<open>The signer's command line and timeout\<close>

lemma mkdir_parents_counters:
  "mkdir_parents E d w = Inr w' \<Longrightarrow>
   run_calls w' = run_calls w \<and> clock w' = clock w \<and> scans w' = scans w
   \<and> resolutions w' = resolutions w"
  by (auto simp add: mkdir_parents_def split: if_splits option.splits)

lemma shutil_move_counters:
  "shutil_move E a b w = Inr w' \<Longrightarrow>
   run_calls w' = run_calls w \<and> clock w' = clock w \<and> scans w' = scans w
   \<and> resolutions w' = resolutions w"
  by (auto simp add: shutil_move_def Let_def split: if_splits option.splits)

lemma move_file_counters [simp]:
  "run_calls (snd (snd (move_file E s p d w))) = run_calls w"
  "clock (snd (snd (move_file E s p d w))) = clock w"
  "scans (snd (snd (move_file E s p d w))) = scans w"
  "resolutions (snd (snd (move_file E s p d w))) = resolutions w"
  by (auto simp add: move_file_def Let_def
      dest!: mkdir_parents_counters shutil_move_counters
      split: option.splits sum.splits exn.splits)

lemma route_failed_counters [simp]:
  "run_calls (snd (route_failed E s p w)) = run_calls w"
  "clock (snd (route_failed E s p w)) = clock w"
  "scans (snd (route_failed E s p w)) = scans w"
  "resolutions (snd (route_failed E s p w)) = resolutions w"
  by (simp_all add: route_failed_def split: option.splits)

lemma wait_fields [simp]:
  "run_calls (wait E d w) = run_calls w"
  "clock (wait E d w) = clock w + d"
  "scans (wait E d w) = scans w"
  "resolutions (wait E d w) = resolutions w"
  "console (wait E d w) = console w"
  by (simp_all add: wait_def Let_def)

lemma usable_simps [simp]:
  "usable E (log E' s m l w) = usable E w"
  "usable E (w\<lparr>resolutions := n\<rparr>) = usable E w"
  by (simp_all add: fun_eq_iff usable_def)

lemma search_up_cong:
  "exists w' = exists w \<Longrightarrow> usable E w' = usable E w \<Longrightarrow>
   search_up E w' n c = search_up E w n c"
  by (induction n arbitrary: c) (simp_all cong: option.case_cong)

lemma search_rest_cong:
  "exists w' = exists w \<Longrightarrow> usable E w' = usable E w \<Longrightarrow> search_rest E w' = search_rest E w"
  by (simp add: search_rest_def search_up_cong [of w' w] cong: option.case_cong)

lemma search_rest_simps [simp]:
  "search_rest E (log E' s m l w) = search_rest E w"
  "search_rest E (w\<lparr>resolutions := n\<rparr>) = search_rest E w"
  by (rule search_rest_cong; simp)+

lemma find_sign_tools_fst:
  assumes "sign_tools_path s' = sign_tools_path s" and "files w' = files w"
    and "dirs w' = dirs w"
  shows "fst (find_sign_tools E s' w') = fst (find_sign_tools E s w)"
proof -
  have e: "exists w' = exists w"
    using assms by (simp add: fun_eq_iff file_size_def is_file_def is_dir_def exists_def)
  then have u: "usable E w' = usable E w" by (simp add: fun_eq_iff usable_def)
  have r: "search_rest E w' = search_rest E w" using e u by (rule search_rest_cong)
  show ?thesis
    using assms(1)
    by (simp add: find_sign_tools_def Let_def u r split: option.splits cong: option.case_cong)
qed


lemma subprocess_run_world:
  "run_calls (snd (subprocess_run E cmd t w)) = run_calls w @ [(cmd, t)]"
  "clock (snd (subprocess_run E cmd t w)) \<le> clock w + t * 1000"
  by (simp_all add: subprocess_run_def Let_def split: process.splits option.splits)

lemma sign_ipa_found:
  assumes "resolve p \<notin> processed_files s" and "fst (find_sign_tools E s w) = Some tool"
  shows "fst (find_sign_tools E (s\<lparr>processed_files := insert (resolve p) (processed_files s)\<rparr>)
               (log E s (''Processing: '' @ path_name p) ''INFO'' w)) = Some tool"
  using assms(2)
    find_sign_tools_fst [of "s\<lparr>processed_files := insert (resolve p) (processed_files s)\<rparr>" s
      "log E s (''Processing: '' @ path_name p) ''INFO'' w" w E]
  by simp


lemma sign_ipa_world:
  assumes "resolve p \<notin> processed_files s"
    and "fst (find_sign_tools E (s\<lparr>processed_files := insert (resolve p) (processed_files s)\<rparr>)
               (log E s (''Processing: '' @ path_name p) ''INFO'' w)) = Some tool"
    and "cmd = build_cmd (s\<lparr>processed_files := insert (resolve p) (processed_files s)\<rparr>) tool
                 (resolve p)
                 (joinpath (output_folder s) (path_stem (resolve p) @ ''_signed.ipa''))"
    and "w3 = log E (s\<lparr>processed_files := insert (resolve p) (processed_files s)\<rparr>)
                (''Running: '' @ join_sp cmd) ''INFO''
                (snd (find_sign_tools E
                   (s\<lparr>processed_files := insert (resolve p) (processed_files s)\<rparr>)
                   (log E s (''Processing: '' @ path_name p) ''INFO'' w)))"
  shows "run_calls (snd (snd (sign_ipa E s p w))) = run_calls (snd (subprocess_run E cmd 1800 w3))"
    and "clock (snd (snd (sign_ipa E s p w))) = clock (snd (subprocess_run E cmd 1800 w3))"
  using assms
  by (simp_all add: sign_ipa_def Let_def
      split: sum.split exn.split prod.split option.split)


lemma build_cmd_claims [simp]:
  "build_cmd (s\<lparr>processed_files := c\<rparr>) t a b = build_cmd s t a b"
  by (simp add: build_cmd_def)

text \<open>
  C5. When \<^verbatim>\<open>sign_ipa\<close> is called on a path that is not claimed and the executable is
  found, exactly one \<^verbatim>\<open>subprocess.run\<close> is added, with timeout 1800 seconds. Its command
  line is the executable, \<^verbatim>\<open>-headless\<close>, \<^verbatim>\<open>-ipa\<close> and the input path,
  \<^verbatim>\<open>-profile\<close> and the profile, \<^verbatim>\<open>-output\<close> and the output path, then
  \<^verbatim>\<open>-args\<close> and the extra arguments exactly when they are not empty, then
  \<^verbatim>\<open>-bundle-id\<close> and the bundle id exactly when one is given and not empty. Whatever the
  signer does, \<^verbatim>\<open>sign_ipa\<close> is back after at most 1800 seconds.
\<close>

theorem signer_invocation:
  assumes "resolve p \<notin> processed_files s" and "fst (find_sign_tools E s w) = Some tool"
  shows "run_calls (snd (snd (sign_ipa E s p w))) =
           run_calls w @
           [([str_path tool, ''-headless'',
              ''-ipa'', str_path (resolve p),
              ''-profile'', profile s,
              ''-output'',
              str_path (joinpath (output_folder s) (path_stem (resolve p) @ ''_signed.ipa''))]
             @ (if sign_args s \<noteq> [] then [''-args'', sign_args s] else [])
             @ (case bundle_id s of
                  None \<Rightarrow> []
                | Some b \<Rightarrow> if b \<noteq> [] then [''-bundle-id'', b] else []),
             1800)]
       \<and> clock (snd (snd (sign_ipa E s p w))) \<le> clock w + 1800 * 1000"
proof -
  let ?s1 = "s\<lparr>processed_files := insert (resolve p) (processed_files s)\<rparr>"
  let ?w1 = "log E s (''Processing: '' @ path_name p) ''INFO'' w"
  let ?cmd = "build_cmd ?s1 tool (resolve p)
                (joinpath (output_folder s) (path_stem (resolve p) @ ''_signed.ipa''))"
  let ?w3 = "log E ?s1 (''Running: '' @ join_sp ?cmd) ''INFO'' (snd (find_sign_tools E ?s1 ?w1))"
  have f: "fst (find_sign_tools E ?s1 ?w1) = Some tool"
    using assms by (rule sign_ipa_found)
  note sw = sign_ipa_world [OF assms(1) f refl refl]
  have r: "run_calls ?w3 = run_calls w" and c: "clock ?w3 = clock w"
    by (simp_all add: find_sign_tools_world)
  have calls: "run_calls (snd (snd (sign_ipa E s p w))) = run_calls w @ [(?cmd, 1800)]"
    using sw(1) subprocess_run_world(1) [of E ?cmd 1800 ?w3] r by simp
  have time: "clock (snd (snd (sign_ipa E s p w))) \<le> clock w + 1800 * 1000"
    using sw(2) subprocess_run_world(2) [of E ?cmd 1800 ?w3] c by simp
  show ?thesis
    using calls time by (simp add: build_cmd_def)
qed

theorem signer_invocation_witness:
  "resolve demo_ipa \<notin> processed_files demo_watcher_args
   \<and> fst (find_sign_tools demo_os demo_watcher_args demo_world) = Some [''opt'', ''SignTools'']
   \<and> run_calls (snd (snd (sign_ipa demo_os demo_watcher_args demo_ipa demo_world))) =
       [([''/opt/SignTools'', ''-headless'', ''-ipa'', ''/watch/app.ipa'', ''-profile'', ''dev'',
          ''-output'', ''/out/app_signed.ipa'', ''-args'', ''-a -d'',
          ''-bundle-id'', ''com.example.app''], 1800)]
   \<and> clock (snd (snd (sign_ipa demo_os demo_watcher_args demo_ipa demo_world))) \<le> 1800000"
proof -
  have h1: "resolve demo_ipa \<notin> processed_files demo_watcher_args"
    by (simp add: demo_watcher_args_def demo_defs)
  have h2: "fst (find_sign_tools demo_os demo_watcher_args demo_world) = Some [''opt'', ''SignTools'']"
    by (simp add: demo_watcher_args_def demo_defs fs_defs run_defs Let_def)
  have v: "run_calls demo_world = []" "clock demo_world = 0"
    "profile demo_watcher_args = ''dev''" "sign_args demo_watcher_args = ''-a -d''"
    "bundle_id demo_watcher_args = Some ''com.example.app''"
    "output_folder demo_watcher_args = [''out'']"
    "str_path [''opt'', ''SignTools''] = ''/opt/SignTools''"
    "str_path (resolve demo_ipa) = ''/watch/app.ipa''"
    "str_path (joinpath [''out''] (path_stem (resolve demo_ipa) @ ''_signed.ipa'')) = ''/out/app_signed.ipa''"
    by (simp_all add: demo_watcher_args_def demo_defs fs_defs)
  show ?thesis
    using h1 h2 signer_invocation [OF h1 h2]
    by (simp add: v)
qed

section \<open>Moving onto a taken name\<close>

lemma stem_suffix: "path_stem p @ path_suffix p = path_name p"
  by (simp add: path_stem_def path_suffix_def Let_def split: option.splits)

lemma path_name_join [simp]: "path_name (joinpath d x) = x"
  by (simp add: path_name_def joinpath_def)

lemma parent_join [simp]: "parent (joinpath d x) = d"
  by (simp add: parent_def joinpath_def)

lemma stamped_differs: "joinpath d (path_stem p @ ''_'' @ t @ path_suffix p) \<noteq> p"
proof
  assume eq: "joinpath d (path_stem p @ ''_'' @ t @ path_suffix p) = p"
  then have "path_name p = path_stem p @ ''_'' @ t @ path_suffix p"
    using path_name_join [of d "path_stem p @ ''_'' @ t @ path_suffix p"] by simp
  then have "length (path_name p) = length (path_stem p) + 1 + length t + length (path_suffix p)"
    by simp
  moreover have "length (path_name p) = length (path_stem p) + length (path_suffix p)"
    using stem_suffix [of p, THEN arg_cong, of length] by simp
  ultimately show False by simp
qed

lemma shutil_move_file:
  assumes "move_error E src dst = None" and "file_size w src = Some n"
    and "\<not> is_dir w dst" and "is_dir w (parent dst)"
  shows "shutil_move E src dst w =
           Inr (w\<lparr>files := AList.update dst n (AList.delete src (files w))\<rparr>)"
  using assms by (simp add: shutil_move_def exists_def is_file_def Let_def)

lemma move_file_moves:
  assumes "mkdir_parents E d w = Inr w1"
    and "file_size w1 (resolve p) = Some n"
    and "target = choose_dest_path E w1 d (resolve p)"
    and "\<not> is_dir w1 target"
    and "move_error E (resolve p) target = None"
  shows "fst (move_file E s p (Some d) w) = True"
    and "fst (snd (move_file E s p (Some d) w)) = discard (resolve p) s"
    and "files (snd (snd (move_file E s p (Some d) w)))
           = AList.update target n (AList.delete (resolve p) (files w1))"
    and "dirs (snd (snd (move_file E s p (Some d) w))) = dirs w1"
proof -
  have pd: "is_dir w1 (parent target)"
    using mkdir_parents_result(1) [OF assms(1)] assms(3) by (simp add: choose_dest_path_def)
  have mv: "shutil_move E (resolve p) target w1 =
              Inr (w1\<lparr>files := AList.update target n (AList.delete (resolve p) (files w1))\<rparr>)"
    using assms(5) assms(2) assms(4) pd by (rule shutil_move_file)
  have ex: "exists w1 (resolve p)" using assms(2) by (simp add: exists_def is_file_def)
  show "fst (move_file E s p (Some d) w) = True"
    and "fst (snd (move_file E s p (Some d) w)) = discard (resolve p) s"
    and "files (snd (snd (move_file E s p (Some d) w)))
           = AList.update target n (AList.delete (resolve p) (files w1))"
    and "dirs (snd (snd (move_file E s p (Some d) w))) = dirs w1"
    using assms(1) ex mv assms(3) by (simp_all add: move_file_def Let_def)
qed

lemma moved_sizes:
  assumes "files w' = AList.update target n (AList.delete src (files w))" and "src \<noteq> target"
  shows "file_size w' target = Some n" and "file_size w' src = None"
    and "q \<noteq> src \<Longrightarrow> q \<noteq> target \<Longrightarrow> file_size w' q = file_size w q"
  using assms by (simp_all add: file_size_def update_conv' delete_conv')

text \<open>
  C3, as amended. When the destination folder holds something of the moved file's name, the
  target is the folder joined with stem, underscore, time stamp and suffix. If nothing of
  that stamped name exists there and the move raises no error, the file is at the target
  with its size, it is gone from its old place, and every other file and every directory is
  as before: nothing is overwritten.
\<close>

theorem move_file_collision:
  assumes "is_dir w d"
    and "file_size w (resolve p) = Some n"
    and "exists w (joinpath d (path_name (resolve p)))"
    and "target = joinpath d (path_stem (resolve p) @ ''_'' @ now_stamp E (clock w)
                              @ path_suffix (resolve p))"
    and "\<not> exists w target"
    and "move_error E (resolve p) target = None"
  shows "fst (move_file E s p (Some d) w) = True
       \<and> file_size (snd (snd (move_file E s p (Some d) w))) target = Some n
       \<and> file_size (snd (snd (move_file E s p (Some d) w))) (resolve p) = None
       \<and> (\<forall>q. q \<noteq> resolve p \<and> q \<noteq> target \<longrightarrow>
             file_size (snd (snd (move_file E s p (Some d) w))) q = file_size w q)
       \<and> dirs (snd (snd (move_file E s p (Some d) w))) = dirs w"
proof -
  have mk: "mkdir_parents E d w = Inr w" using assms(1) by (simp add: mkdir_parents_def)
  have t: "target = choose_dest_path E w d (resolve p)"
    using assms(3) assms(4) by (simp add: choose_dest_path_def)
  have nd: "\<not> is_dir w target" using assms(5) by (simp add: exists_def)
  note m = move_file_moves [OF mk assms(2) t nd assms(6), of s]
  have ne: "resolve p \<noteq> target" using assms(4) stamped_differs [of d "resolve p"] by metis
  note z = moved_sizes [OF m(3) ne]
  show ?thesis using m(1) m(4) z by simp
qed


lemmas world_defs = demo_world_taken_def demo_world_taken_twice_def demo_world_ready_def

text \<open>
  C3, as stated, fails: the stamped name can be taken too. With \<^verbatim>\<open>/done/app.ipa\<close> and
  \<^verbatim>\<open>/done/app_20260101_000000.ipa\<close> (nine bytes) both present and the clock at that
  second, moving \<^verbatim>\<open>/watch/app.ipa\<close> (five bytes) returns \<^verbatim>\<open>True\<close> and leaves five
  bytes under the stamped name: the file that was there is overwritten.
\<close>

theorem move_file_collision_overwrites:
  "is_file demo_world_taken_twice [''done'', ''app.ipa'']
   \<and> file_size demo_world_taken_twice [''done'', ''app_20260101_000000.ipa''] = Some 9
   \<and> fst (move_file demo_os demo_watcher demo_ipa (Some [''done'']) demo_world_taken_twice) = True
   \<and> file_size (snd (snd (move_file demo_os demo_watcher demo_ipa (Some [''done''])
                              demo_world_taken_twice)))
        [''done'', ''app_20260101_000000.ipa''] = Some 5"
  by (simp add: world_defs demo_defs fs_defs run_defs Let_def upt_rec)

theorem move_file_collision_witness:
  "is_dir demo_world_taken [''done'']
   \<and> file_size demo_world_taken (resolve demo_ipa) = Some 5
   \<and> exists demo_world_taken (joinpath [''done''] (path_name (resolve demo_ipa)))
   \<and> \<not> exists demo_world_taken [''done'', ''app_20260101_000000.ipa'']
   \<and> move_error demo_os (resolve demo_ipa) [''done'', ''app_20260101_000000.ipa''] = None
   \<and> fst (move_file demo_os demo_watcher demo_ipa (Some [''done'']) demo_world_taken) = True
   \<and> file_size (snd (snd (move_file demo_os demo_watcher demo_ipa (Some [''done''])
                              demo_world_taken)))
        [''done'', ''app_20260101_000000.ipa''] = Some 5
   \<and> file_size (snd (snd (move_file demo_os demo_watcher demo_ipa (Some [''done''])
                              demo_world_taken)))
        [''done'', ''app.ipa''] = Some 7"
proof -
  have h1: "is_dir demo_world_taken [''done'']"
    by (simp add: world_defs demo_defs fs_defs)
  have h2: "file_size demo_world_taken (resolve demo_ipa) = Some 5"
    by (simp add: world_defs demo_defs fs_defs)
  have h3: "exists demo_world_taken (joinpath [''done''] (path_name (resolve demo_ipa)))"
    by (simp add: world_defs demo_defs fs_defs)
  have h4: "[''done'', ''app_20260101_000000.ipa'']
            = joinpath [''done''] (path_stem (resolve demo_ipa) @ ''_''
                @ now_stamp demo_os (clock demo_world_taken) @ path_suffix (resolve demo_ipa))"
    by (simp add: world_defs demo_defs fs_defs)
  have h5: "\<not> exists demo_world_taken [''done'', ''app_20260101_000000.ipa'']"
    by (simp add: world_defs demo_defs fs_defs)
  have h6: "move_error demo_os (resolve demo_ipa) [''done'', ''app_20260101_000000.ipa''] = None"
    by (simp add: demo_defs)
  have old: "file_size demo_world_taken [''done'', ''app.ipa''] = Some 7"
    by (simp add: world_defs demo_defs fs_defs)
  have ne: "[''done'', ''app.ipa''] \<noteq> resolve demo_ipa"
    "[''done'', ''app.ipa''] \<noteq> [''done'', ''app_20260101_000000.ipa'']"
    by (simp_all add: demo_defs resolve_def)
  show ?thesis
    using h1 h2 h3 h5 h6 old ne move_file_collision [OF h1 h2 h3 h4 h5 h6, of demo_watcher]
    by simp
qed

section \<open>Routing after a successful signing\<close>





lemma choose_dest_parent [simp]: "parent (choose_dest_path E w d p) = d"
  by (simp add: choose_dest_path_def)









end
